theory Spec2Isabelle
  imports Main "HOL-Library.Sublist" "HOL-Library.AList"
begin

section \<open>JavaScript values used by localkit.js\<close>

text \<open>
  A plain JavaScript object used as a dictionary is an association list in the order of
  \<open>Object.keys\<close>. Keys are strings; assigning to a key that is present keeps its place,
  assigning to a new key appends it, \<open>delete\<close> drops it.
\<close>

type_synonym 'v obj = "(string \<times> 'v) list"

definition Object_keys :: "'v obj \<Rightarrow> string list" where
  "Object_keys ob = map fst ob"

definition hasOwnProperty :: "'v obj \<Rightarrow> string \<Rightarrow> bool" where
  "hasOwnProperty ob k = (map_of ob k \<noteq> None)"

definition obj_set :: "'v obj \<Rightarrow> string \<Rightarrow> 'v \<Rightarrow> 'v obj" where
  "obj_set ob k v = AList.update k v ob"

definition obj_delete :: "'v obj \<Rightarrow> string \<Rightarrow> 'v obj" where
  "obj_delete ob k = AList.delete k ob"

text \<open>\<open>String.prototype.indexOf\<close>: the first position of a substring, or \<open>-1\<close>.\<close>

fun indexOf_from :: "nat \<Rightarrow> string \<Rightarrow> string \<Rightarrow> int" where
  "indexOf_from i [] pat = (if pat = [] then int i else - 1)"
| "indexOf_from i (c # cs) pat =
     (if prefix pat (c # cs) then int i else indexOf_from (Suc i) cs pat)"

definition indexOf :: "string \<Rightarrow> string \<Rightarrow> int" where
  "indexOf str pat = indexOf_from 0 str pat"

text \<open>\<open>String.prototype.split\<close> on a one-character separator.\<close>

fun split_on :: "char \<Rightarrow> string \<Rightarrow> string list" where
  "split_on sep [] = [[]]"
| "split_on sep (c # cs) =
     (if c = sep then [] # split_on sep cs
      else (case split_on sep cs of
              [] \<Rightarrow> [[c]]
            | w # ws \<Rightarrow> (c # w) # ws))"

text \<open>\<open>Array.prototype.join\<close>.\<close>

fun join_with :: "string \<Rightarrow> string list \<Rightarrow> string" where
  "join_with sep [] = []"
| "join_with sep [p] = p"
| "join_with sep (p # q # ps) = p @ sep @ join_with sep (q # ps)"

section \<open>Errors and promises\<close>

text \<open>
  The values the promises of localkit.js are rejected with, and the exceptions its
  collaborators throw. The messages of the source are given beside each constructor.
\<close>

datatype error =
    MissingContentRoot string   \<comment> \<open>\<open>projectPath + ' does not have a "www" directory.'\<close>\<close>
  | NoProjectWithId string      \<comment> \<open>\<open>'No project with id: ' + projectId\<close>\<close>
  | NoSuchProject               \<comment> \<open>\<open>'No such project.'\<close>\<close>
  | PathTraversal               \<comment> \<open>\<open>'File is outside of project path.'\<close>\<close>
  | DoesNotExist string         \<comment> \<open>\<open>origFilePath + ' doesn't exist.'\<close>\<close>
  | IsADirectory string         \<comment> \<open>\<open>filePath + ' is a directory'\<close>\<close>
  | MustBeLoggedIn              \<comment> \<open>\<open>'Must be logged in to use this method.'\<close>\<close>
  | TypeError                   \<comment> \<open>reading a property of \<open>undefined\<close> or \<open>null\<close>\<close>
  | External string             \<comment> \<open>an error raised by a collaborator or by the runtime\<close>

text \<open>
  A Q promise is resolved with a value, rejected with an error, or never settled:
  a \<open>deferred\<close> on which neither \<open>resolve\<close> nor \<open>reject\<close> is ever called stays pending.
\<close>

datatype 'a promise = Resolved 'a | Rejected error | Pending

section \<open>Project file-tree filtering: \<open>Localkit.prototype.getProjectFiles\<close>\<close>

text \<open>
  The regular expression \<^verbatim>\<open>/^\/(www\/|[^/]*$)/\<close>: the string starts with a slash that is
  followed either by \<^verbatim>\<open>www/\<close> or by no further slash up to the end of the string.
\<close>

definition www_regex_test :: "string \<Rightarrow> bool" where
  "www_regex_test fn =
     (case fn of
        [] \<Rightarrow> False
      | c # rest \<Rightarrow> c = CHR ''/'' \<and> (prefix ''www/'' rest \<or> CHR ''/'' \<notin> set rest))"

definition fileFilter :: "string \<Rightarrow> bool" where
  "fileFilter fn =
     (if indexOf fn ''/.'' \<ge> 0 then False
      else www_regex_test fn)"

text \<open>The loop copying the surviving entries of \<open>files\<close> into \<open>tmp\<close>.\<close>

fun copy_files :: "'f obj \<Rightarrow> string list \<Rightarrow> 'f obj \<Rightarrow> 'f obj" where
  "copy_files files [] tmp = tmp"
| "copy_files files (filename # filenames) tmp =
     (case map_of files filename of
        Some v \<Rightarrow> copy_files files filenames (obj_set tmp filename v)
      | None \<Rightarrow> copy_files files filenames tmp)"

definition filter_files :: "'f obj \<Rightarrow> 'f obj" where
  "filter_files files = copy_files files (filter fileFilter (Object_keys files)) []"

section \<open>Node's \<open>path\<close> module (POSIX flavour)\<close>

text \<open>
  \<open>path.join\<close>, \<open>path.normalize\<close> and \<open>path.resolve\<close> belong to the Node runtime, not to
  this repository. They are written out here after the runtime's algorithm for POSIX
  paths, with the process's working directory as a parameter.
\<close>

fun normalizeArray :: "string list \<Rightarrow> bool \<Rightarrow> string list \<Rightarrow> string list" where
  "normalizeArray [] allowAboveRoot res = res"
| "normalizeArray (p # parts) allowAboveRoot res =
     (if p = [] \<or> p = ''.'' then normalizeArray parts allowAboveRoot res
      else if p = ''..'' then
        (if res \<noteq> [] \<and> last res \<noteq> ''..''
           then normalizeArray parts allowAboveRoot (butlast res)
         else if allowAboveRoot
           then normalizeArray parts allowAboveRoot (res @ [''..''])
         else normalizeArray parts allowAboveRoot res)
      else normalizeArray parts allowAboveRoot (res @ [p]))"

definition isAbsolute :: "string \<Rightarrow> bool" where
  "isAbsolute p = (case p of [] \<Rightarrow> False | c # _ \<Rightarrow> c = CHR ''/'')"

definition path_normalize :: "string \<Rightarrow> string" where
  "path_normalize p =
     (let abs = isAbsolute p;
          trailingSlash = (p \<noteq> [] \<and> last p = CHR ''/'');
          p1 = join_with ''/'' (normalizeArray (split_on CHR ''/'' p) (\<not> abs) []);
          p2 = (if p1 = [] \<and> \<not> abs then ''.'' else p1);
          p3 = (if p2 \<noteq> [] \<and> trailingSlash then p2 @ ''/'' else p2)
      in (if abs then ''/'' else []) @ p3)"

text \<open>\<open>path.join(a, b)\<close>: the non-empty arguments joined by a slash, then normalised.\<close>

definition path_join :: "string \<Rightarrow> string \<Rightarrow> string" where
  "path_join a b = path_normalize (join_with ''/'' (filter (\<lambda>seg. seg \<noteq> []) [a, b]))"

text \<open>
  \<open>path.resolve(p)\<close> with one argument: an empty argument is skipped, a relative one is
  put behind the working directory; the result has no trailing slash.
\<close>

definition path_resolve :: "string \<Rightarrow> string \<Rightarrow> string" where
  "path_resolve cwd p =
     (let r1 = (if p = [] then [] else p @ ''/'');
          r2 = (if isAbsolute p then r1 else if cwd = [] then r1 else cwd @ ''/'' @ r1);
          resolvedAbsolute = (if isAbsolute p then True else isAbsolute cwd);
          r3 = join_with ''/'' (normalizeArray (split_on CHR ''/'' r2) (\<not> resolvedAbsolute) []);
          r4 = (if resolvedAbsolute then ''/'' else []) @ r3
      in if r4 = [] then ''.'' else r4)"

section \<open>Collaborators\<close>

text \<open>
  Modelled from the spec: the filesystem watch primitive (\<open>localkit/fileWatcher\<close>, not
  among the sources). A watcher is running or idle; \<open>run\<close> and \<open>stop\<close> either throw,
  leaving the watcher as it was, or switch it to running on a directory, respectively
  to idle. Whether they throw is decided by the environment.
\<close>

record FileWatcher =
  running :: bool
  watching :: "string option"
  onchange :: "string option"  \<comment> \<open>the project id the change callback is tagged with\<close>

record loginBody =
  serverName :: string
  clientId :: string
  userId :: string

record config =
  cfg_type :: string
  cfg_version :: string
  beacon_send_port :: nat
  beacon_send_interval :: nat

text \<open>
  Everything localkit.js asks of the world around it: the Monaca object (identity
  collaborator), the filesystem, the watch primitive's failures, the configuration, and
  the network-interface enumeration.
\<close>

record env =
  getLocalProjectId :: "string \<Rightarrow> error + string"
  monaca_loggedIn :: bool
  monaca_loginBody :: "loginBody option"
  fs_exists :: "string \<Rightarrow> bool"
  fs_isDirectory :: "string \<Rightarrow> bool"
  fs_readFile :: "string \<Rightarrow> error + string"
  fs_writeFile_error :: "string \<Rightarrow> error option"
  process_cwd :: string
  run_throws :: "FileWatcher \<Rightarrow> string \<Rightarrow> error option"
  stop_throws :: "FileWatcher \<Rightarrow> error option"
  the_config :: config
  os_platform :: string
  sha1_hex :: "string \<Rightarrow> string"
  broadcastAddresses :: "string list"

definition FileWatcher_new :: FileWatcher where
  "FileWatcher_new = \<lparr>running = False, watching = None, onchange = None\<rparr>"

definition fw_onchange :: "FileWatcher \<Rightarrow> string \<Rightarrow> FileWatcher" where
  "fw_onchange w tag = w\<lparr>onchange := Some tag\<rparr>"

definition isRunning :: "FileWatcher \<Rightarrow> bool" where
  "isRunning w = running w"

definition fw_run :: "env \<Rightarrow> FileWatcher \<Rightarrow> string \<Rightarrow> error + FileWatcher" where
  "fw_run en w dir =
     (case run_throws en w dir of
        Some e \<Rightarrow> Inl e
      | None \<Rightarrow> Inr (w\<lparr>running := True, watching := Some dir\<rparr>))"

definition fw_stop :: "env \<Rightarrow> FileWatcher \<Rightarrow> error + FileWatcher" where
  "fw_stop en w =
     (case stop_throws en w of
        Some e \<Rightarrow> Inl e
      | None \<Rightarrow> Inr (w\<lparr>running := False, watching := None\<rparr>))"

section \<open>The Localkit object\<close>

record project =
  fileWatcher :: FileWatcher
  path :: string

record http_server =
  address_port :: "nat option"  \<comment> \<open>\<open>server.address()\<close> is \<open>null\<close> while not listening\<close>

record serverInfo =
  si_type :: string
  si_port :: nat
  si_os :: string
  si_name :: string
  si_serverId :: string
  si_userHash :: string
  si_version :: string

record datagram =
  dg_message :: serverInfo
  dg_port :: nat
  dg_address :: string

datatype log_entry =
    UnableToGetCurrentPort          \<comment> \<open>\<open>console.error\<close> in \<open>_sendBeacon\<close>\<close>
  | UnableToStartFileWatcher error  \<comment> \<open>\<open>console.log\<close> in \<open>startWatch\<close>\<close>

text \<open>
  The fields of the object (\<open>p_isWatching\<close> is \<open>_isWatching\<close>, \<open>p_interval\<close> is
  \<open>_interval\<close>), followed by the part of the runtime its methods act on: the console,
  the armed interval timers, the UDP sockets bound for a send, and the contents of the
  pairing-key file.
\<close>

record localkit =
  projects :: "project obj"
  p_isWatching :: bool
  pairingKeys :: "string obj"
  beaconTransmitterRunning :: bool
  httpServerRunning :: bool
  server :: "http_server option"
  p_interval :: "nat option"
  console :: "log_entry list"
  timers :: "nat list"
  next_timer :: nat
  udp_sockets :: "datagram list"
  pairing_keys_file :: "string option"

definition isWatching :: "localkit \<Rightarrow> bool" where
  "isWatching s = p_isWatching s"

text \<open>
  \<open>Q.all\<close>: rejected with the reason of the first rejected promise, otherwise pending
  while one of the promises is, otherwise resolved with the list of the values. The
  promises are taken to settle in list order.
\<close>

fun first_rejected :: "'a promise list \<Rightarrow> error option" where
  "first_rejected [] = None"
| "first_rejected (Rejected e # ps) = Some e"
| "first_rejected (_ # ps) = first_rejected ps"

fun all_resolved :: "'a promise list \<Rightarrow> 'a list option" where
  "all_resolved [] = Some []"
| "all_resolved (Resolved v # ps) =
     (case all_resolved ps of None \<Rightarrow> None | Some vs \<Rightarrow> Some (v # vs))"
| "all_resolved (_ # ps) = None"

definition Q_all :: "'a promise list \<Rightarrow> 'a list promise" where
  "Q_all ps =
     (case first_rejected ps of
        Some e \<Rightarrow> Rejected e
      | None \<Rightarrow> (case all_resolved ps of None \<Rightarrow> Pending | Some vs \<Rightarrow> Resolved vs))"

subsection \<open>\<open>addProject\<close> and \<open>removeProject\<close>\<close>

definition addProject :: "env \<Rightarrow> localkit \<Rightarrow> string \<Rightarrow> string promise \<times> localkit" where
  "addProject en s projectPath =
     (case getLocalProjectId en projectPath of
        Inl e \<Rightarrow> (Rejected e, s)
      | Inr projectId \<Rightarrow>
          if \<not> fs_exists en (path_join projectPath ''www'')
            then (Rejected (MissingContentRoot projectPath), s)
          else if hasOwnProperty (projects s) projectId
            then (Resolved projectId, s)
          else
            (let w = fw_onchange FileWatcher_new projectId in
             case (if isWatching s then fw_run en w (path_join projectPath ''www'')
                   else Inr w) of
               Inl e \<Rightarrow> (Rejected e, s)
             | Inr w' \<Rightarrow>
                 (Resolved projectId,
                  s\<lparr>projects := obj_set (projects s) projectId
                                   \<lparr>fileWatcher = w', path = projectPath\<rparr>\<rparr>)))"

text \<open>
  \<open>removeProject\<close> has no \<open>else\<close> branch for an id that is not registered: the deferred
  is then neither resolved nor rejected.
\<close>

definition removeProject :: "env \<Rightarrow> localkit \<Rightarrow> string \<Rightarrow> string promise \<times> localkit" where
  "removeProject en s projectPath =
     (case getLocalProjectId en projectPath of
        Inl e \<Rightarrow> (Rejected e, s)
      | Inr projectId \<Rightarrow>
          (case map_of (projects s) projectId of
             Some project \<Rightarrow>
               (case fw_stop en (fileWatcher project) of
                  Inl e \<Rightarrow> (Rejected e, s)
                | Inr _ \<Rightarrow>
                    (Resolved projectId,
                     s\<lparr>projects := obj_delete (projects s) projectId\<rparr>))
           | None \<Rightarrow> (Pending, s)))"

subsection \<open>\<open>startWatch\<close> and \<open>stopWatch\<close>\<close>

definition idle_ids :: "localkit \<Rightarrow> string list" where
  "idle_ids s =
     filter (\<lambda>projectId. case map_of (projects s) projectId of
                            Some p \<Rightarrow> \<not> isRunning (fileWatcher p)
                          | None \<Rightarrow> False)
       (Object_keys (projects s))"

definition running_ids :: "localkit \<Rightarrow> string list" where
  "running_ids s =
     filter (\<lambda>projectId. case map_of (projects s) projectId of
                            Some p \<Rightarrow> isRunning (fileWatcher p)
                          | None \<Rightarrow> False)
       (Object_keys (projects s))"

text \<open>The \<open>for\<close> loop of \<open>startWatch\<close>, with \<open>paths\<close> and the object as its state.\<close>

fun startWatch_loop ::
  "env \<Rightarrow> string list \<Rightarrow> string list \<times> localkit \<Rightarrow> string list \<times> localkit" where
  "startWatch_loop en [] (paths, s) = (paths, s)"
| "startWatch_loop en (projectId # ids) (paths, s) =
     (case map_of (projects s) projectId of
        None \<Rightarrow>
          startWatch_loop en ids
            (paths, s\<lparr>console := console s @ [UnableToStartFileWatcher TypeError]\<rparr>)
      | Some project \<Rightarrow>
          (let watchDir = path_join (path project) ''www'' in
           case fw_run en (fileWatcher project) watchDir of
             Inl e \<Rightarrow>
               startWatch_loop en ids
                 (paths, s\<lparr>console := console s @ [UnableToStartFileWatcher e]\<rparr>)
           | Inr w' \<Rightarrow>
               startWatch_loop en ids
                 (paths @ [watchDir],
                  s\<lparr>projects := obj_set (projects s) projectId
                                   (project\<lparr>fileWatcher := w'\<rparr>)\<rparr>)))"

definition startWatch :: "env \<Rightarrow> localkit \<Rightarrow> string list promise \<times> localkit" where
  "startWatch en s =
     (case startWatch_loop en (idle_ids s) ([], s) of
        (paths, s') \<Rightarrow> (Resolved paths, s'\<lparr>p_isWatching := False\<rparr>))"

text \<open>The \<open>map\<close> callback of \<open>stopWatch\<close>, run over the ids of the running watchers.\<close>

fun stopWatch_map ::
  "env \<Rightarrow> string list \<Rightarrow> localkit \<Rightarrow> string promise list \<times> localkit" where
  "stopWatch_map en [] s = ([], s)"
| "stopWatch_map en (projectId # ids) s =
     (case map_of (projects s) projectId of
        None \<Rightarrow>
          (case stopWatch_map en ids s of (ps, s') \<Rightarrow> (Rejected TypeError # ps, s'))
      | Some project \<Rightarrow>
          (case fw_stop en (fileWatcher project) of
             Inl e \<Rightarrow>
               (case stopWatch_map en ids s of (ps, s') \<Rightarrow> (Rejected e # ps, s'))
           | Inr w' \<Rightarrow>
               (case stopWatch_map en ids
                       (s\<lparr>projects := obj_set (projects s) projectId
                                         (project\<lparr>fileWatcher := w'\<rparr>)\<rparr>) of
                  (ps, s') \<Rightarrow> (Resolved (path project) # ps, s'))))"

definition stopWatch :: "env \<Rightarrow> localkit \<Rightarrow> string list promise \<times> localkit" where
  "stopWatch en s =
     (case stopWatch_map en (running_ids s) s of
        (promises, s') \<Rightarrow>
          (case Q_all promises of
             Resolved projectPaths \<Rightarrow> (Resolved projectPaths, s'\<lparr>p_isWatching := False\<rparr>)
           | Rejected e \<Rightarrow> (Rejected e, s')
           | Pending \<Rightarrow> (Pending, s')))"

subsection \<open>\<open>setProjects\<close>\<close>









subsection \<open>\<open>getProjectFiles\<close> and \<open>readProjectFile\<close>\<close>

text \<open>
  The enumeration of a project's files comes from \<open>monaca.getLocalProjectFiles\<close>, taken
  here as the parameter \<open>getLocalProjectFiles\<close>; what it records about a file is not
  looked at.
\<close>

definition getProjectFiles ::
  "(string \<Rightarrow> error + 'f obj) \<Rightarrow> localkit \<Rightarrow> string \<Rightarrow> 'f obj promise" where
  "getProjectFiles getLocalProjectFiles s projectId =
     (case map_of (projects s) projectId of
        Some project \<Rightarrow>
          (case getLocalProjectFiles (path project) of
             Inr files \<Rightarrow> Resolved (filter_files files)
           | Inl e \<Rightarrow> Rejected e)
      | None \<Rightarrow> Rejected (NoProjectWithId projectId))"

datatype fs_call = Exists string | Lstat string | ReadFile string

text \<open>
  The traversal guard of \<open>readProjectFile\<close>: the comparison of the two resolved paths.
\<close>

definition strip_leading_slash :: "string \<Rightarrow> string" where
  "strip_leading_slash filePath =
     (case filePath of
        [] \<Rightarrow> []
      | c # rest \<Rightarrow> if c = CHR ''/'' then rest else filePath)"

definition guard_passes :: "string \<Rightarrow> string \<Rightarrow> string \<Rightarrow> bool" where
  "guard_passes cwd projectPath filePath =
     (let joined = path_join projectPath (strip_leading_slash filePath);
          absoluteFilePath = path_resolve cwd joined;
          absoluteProjectPath = path_resolve cwd projectPath
      in indexOf absoluteFilePath absoluteProjectPath = 0)"

text \<open>
  The result is paired with the filesystem calls made, in order, so that what is done
  before and after the guard can be told apart.
\<close>

definition readProjectFile ::
  "env \<Rightarrow> localkit \<Rightarrow> string \<Rightarrow> string \<Rightarrow> string promise \<times> fs_call list" where
  "readProjectFile en s projectId filePath =
     (case map_of (projects s) projectId of
        None \<Rightarrow> (Rejected (NoProjectWithId projectId), [])
      | Some project \<Rightarrow>
          (let projectPath = path project;
               origFilePath = filePath;
               joined = path_join projectPath (strip_leading_slash filePath)
           in if \<not> guard_passes (process_cwd en) projectPath filePath
                then (Rejected PathTraversal, [])
              else if \<not> fs_exists en joined
                then (Rejected (DoesNotExist origFilePath), [Exists joined])
              else if fs_isDirectory en joined
                then (Rejected (IsADirectory joined), [Exists joined, Lstat joined])
              else (case fs_readFile en joined of
                      Inl e \<Rightarrow> (Rejected e, [Exists joined, Lstat joined, ReadFile joined])
                    | Inr data \<Rightarrow>
                        (Resolved data, [Exists joined, Lstat joined, ReadFile joined]))))"

subsection \<open>\<open>clearPairing\<close>\<close>

text \<open>
  \<open>JSON.stringify\<close> on an object whose values are strings. Quotes, backslashes and
  control characters are escaped.
\<close>

definition hex_digit :: "nat \<Rightarrow> char" where
  "hex_digit n = (''0123456789abcdef'' ! (n mod 16))"

definition json_escape :: "char \<Rightarrow> string" where
  "json_escape c =
     (if c = CHR 0x22 then [CHR 0x5C, CHR 0x22]
      else if c = CHR 0x5C then [CHR 0x5C, CHR 0x5C]
      else if c = CHR 0x08 then [CHR 0x5C, CHR ''b'']
      else if c = CHR 0x0C then [CHR 0x5C, CHR ''f'']
      else if c = CHR 0x0A then [CHR 0x5C, CHR ''n'']
      else if c = CHR 0x0D then [CHR 0x5C, CHR ''r'']
      else if c = CHR 0x09 then [CHR 0x5C, CHR ''t'']
      else if (of_char c :: nat) < 32
        then [CHR 0x5C, CHR ''u'', CHR ''0'', CHR ''0'',
              hex_digit (of_char c div 16), hex_digit (of_char c)]
      else [c])"

definition json_quote :: "string \<Rightarrow> string" where
  "json_quote str = [CHR 0x22] @ concat (map json_escape str) @ [CHR 0x22]"

definition JSON_stringify :: "string obj \<Rightarrow> string" where
  "JSON_stringify ob =
     ''{'' @ join_with '','' (map (\<lambda>(k, v). json_quote k @ '':'' @ json_quote v) ob) @ ''}''"

text \<open>
  \<open>fs.writeFile\<close> either reports an error, and the file is taken to keep its contents,
  or replaces the contents of the file.
\<close>

definition clearPairing :: "env \<Rightarrow> localkit \<Rightarrow> unit promise \<times> localkit" where
  "clearPairing en s =
     (let s1 = s\<lparr>pairingKeys := []\<rparr>;
          data = JSON_stringify (pairingKeys s1)
      in case fs_writeFile_error en data of
           Some e \<Rightarrow> (Rejected e, s1)
         | None \<Rightarrow> (Resolved (), s1\<lparr>pairing_keys_file := Some data\<rparr>))"

subsection \<open>The beacon transmitter\<close>

definition startBeaconTransmitter :: "env \<Rightarrow> localkit \<Rightarrow> unit promise \<times> localkit" where
  "startBeaconTransmitter en s =
     (if \<not> monaca_loggedIn en then (Rejected MustBeLoggedIn, s)
      else (Resolved (),
            s\<lparr>timers := timers s @ [next_timer s],
              next_timer := Suc (next_timer s),
              p_interval := Some (next_timer s),
              beaconTransmitterRunning := True\<rparr>))"

definition stopBeaconTransmitter :: "localkit \<Rightarrow> unit promise \<times> localkit" where
  "stopBeaconTransmitter s =
     (case p_interval s of
        Some t \<Rightarrow>
          (Resolved (),
           s\<lparr>timers := removeAll t (timers s),
             p_interval := None,
             beaconTransmitterRunning := False\<rparr>)
      | None \<Rightarrow> (Resolved (), s))"

text \<open>
  \<open>this.server.address().port\<close>: a \<open>TypeError\<close> when there is no server object or when
  the server is not listening.
\<close>

definition server_port :: "localkit \<Rightarrow> error + nat" where
  "server_port s =
     (case server s of
        None \<Rightarrow> Inl TypeError
      | Some srv \<Rightarrow> (case address_port srv of None \<Rightarrow> Inl TypeError | Some p \<Rightarrow> Inr p))"

definition getServerInfo :: "env \<Rightarrow> localkit \<Rightarrow> error + serverInfo" where
  "getServerInfo en s =
     (case server_port s of
        Inl e \<Rightarrow> Inl e
      | Inr p \<Rightarrow>
          (case monaca_loginBody en of
             None \<Rightarrow> Inl TypeError
           | Some lb \<Rightarrow>
               Inr \<lparr>si_type = cfg_type (the_config en),
                    si_port = p,
                    si_os = os_platform en,
                    si_name = serverName lb,
                    si_serverId = clientId lb,
                    si_userHash = sha1_hex en (userId lb),
                    si_version = cfg_version (the_config en)\<rparr>))"

text \<open>
  \<open>sendBroadcast\<close> creates one socket for the address and binds it; the datagram goes
  out from the socket's \<open>listening\<close> handler.
\<close>

definition sendBroadcast :: "env \<Rightarrow> serverInfo \<Rightarrow> string \<Rightarrow> localkit \<Rightarrow> localkit" where
  "sendBroadcast en message addr s =
     s\<lparr>udp_sockets := udp_sockets s @
         [\<lparr>dg_message = message,
           dg_port = beacon_send_port (the_config en),
           dg_address = addr\<rparr>]\<rparr>"

text \<open>
  \<open>_sendBeacon\<close> is the timer's callback. The \<open>catch\<close> block does not return, so the
  call of \<open>_getServerInfo\<close> that follows is made in either case; an exception it throws
  leaves the callback (\<open>Inl\<close>).
\<close>

definition sendBeacon :: "env \<Rightarrow> localkit \<Rightarrow> (error + unit) \<times> localkit" where
  "sendBeacon en s =
     (let s1 = (case server_port s of
                  Inl e \<Rightarrow> snd (stopBeaconTransmitter
                                  (s\<lparr>console := console s @ [UnableToGetCurrentPort]\<rparr>))
                | Inr port \<Rightarrow> s)
      in case getServerInfo en s1 of
           Inl e \<Rightarrow> (Inl e, s1)
         | Inr message \<Rightarrow>
             (Inr (), fold (sendBroadcast en message) (broadcastAddresses en) s1))"

section \<open>The specification's notions\<close>

text \<open>
  What the specification says in words, written down independently of the code, to be
  compared with it: the components of a path, a hidden segment (a component beginning
  with a dot), living under the top-level \<open>www\<close> directory, having no directory
  component, and one path lying within another.
\<close>

definition hidden_segment :: "string \<Rightarrow> bool" where
  "hidden_segment p = list_ex (\<lambda>c. prefix ''.'' c) (split_on CHR ''/'' p)"

definition under_www :: "string \<Rightarrow> bool" where
  "under_www p =
     (case split_on CHR ''/'' p of
        c # d # _ \<Rightarrow> c = ''www''
      | _ \<Rightarrow> False)"

definition no_directory :: "string \<Rightarrow> bool" where
  "no_directory p = (length (split_on CHR ''/'' p) = 1)"

definition spec_keeps :: "string \<Rightarrow> bool" where
  "spec_keeps p = (\<not> hidden_segment p \<and> (under_www p \<or> no_directory p))"

definition path_components :: "string \<Rightarrow> string list" where
  "path_components p = filter (\<lambda>c. c \<noteq> []) (split_on CHR ''/'' p)"

definition lies_within :: "string \<Rightarrow> string \<Rightarrow> bool" where
  "lies_within root file = prefix (path_components root) (path_components file)"

text \<open>
  For \<open>startWatch\<close>: a project is attached to by a call when its watcher is idle as the
  call begins and the watch primitive starts on its \<open>www\<close> directory; \<open>started\<close> is the
  project afterwards.
\<close>

definition attached :: "env \<Rightarrow> project \<Rightarrow> bool" where
  "attached en p =
     (\<not> isRunning (fileWatcher p) \<and>
      run_throws en (fileWatcher p) (path_join (path p) ''www'') = None)"

definition started :: "project \<Rightarrow> project" where
  "started p =
     p\<lparr>fileWatcher := (fileWatcher p)\<lparr>running := True,
                                          watching := Some (path_join (path p) ''www'')\<rparr>\<rparr>"

text \<open>The directories a run of the loop of \<open>startWatch\<close> over \<open>ids\<close> collects.\<close>

definition paths_of :: "env \<Rightarrow> (string \<rightharpoonup> project) \<Rightarrow> string list \<Rightarrow> string list" where
  "paths_of en m ids =
     concat (map (\<lambda>i. case m i of
                         Some p \<Rightarrow>
                           if run_throws en (fileWatcher p) (path_join (path p) ''www'') = None
                           then [path_join (path p) ''www''] else []
                       | None \<Rightarrow> []) ids)"

text \<open>No HTTP listener is bound: there is no server object, or it is not listening.\<close>

definition no_listener :: "localkit \<Rightarrow> bool" where
  "no_listener s = (case server s of None \<Rightarrow> True | Some srv \<Rightarrow> address_port srv = None)"









section \<open>Example configurations\<close>

text \<open>
  A Localkit object as the constructor leaves it, one with the project \<open>/tmp/app1\<close>
  registered under the id \<open>id1\<close>, and a file enumeration for that project.
\<close>

definition new_localkit :: localkit where
  "new_localkit =
     \<lparr>projects = [], p_isWatching = False, pairingKeys = [],
      beaconTransmitterRunning = False, httpServerRunning = False,
      server = None, p_interval = None,
      console = [], timers = [], next_timer = 0, udp_sockets = [],
      pairing_keys_file = None\<rparr>"

definition app1 :: project where
  "app1 = \<lparr>fileWatcher = fw_onchange FileWatcher_new ''id1'', path = ''/tmp/app1''\<rparr>"

definition kit1 :: localkit where
  "kit1 = new_localkit\<lparr>projects := [(''id1'', app1)]\<rparr>"

definition files1 :: "nat obj" where
  "files1 =
     [(''/www/index.html'', 1), (''/www/.git/config'', 2),
      (''/README.md'', 3), (''/node_modules/pkg/www/a.js'', 4)]"

definition enumerate1 :: "string \<Rightarrow> error + nat obj" where
  "enumerate1 p = (if p = ''/tmp/app1'' then Inr files1 else Inl (External ''ENOENT''))"

text \<open>
  An environment: four project directories with an id each, of which \<open>/tmp/bare\<close> has no
  \<open>www\<close> directory and \<open>/tmp/app3\<close> has one that the watch primitive cannot be started
  on; a directory \<open>/tmp/app10\<close> beside \<open>/tmp/app1\<close> that is no project; a working
  directory; a logged-in user.
\<close>

definition env1 :: env where
  "env1 =
     \<lparr>getLocalProjectId =
        (\<lambda>p. if p = ''/tmp/app1'' then Inr ''id1''
             else if p = ''/tmp/app2'' then Inr ''id2''
             else if p = ''/tmp/app3'' then Inr ''id3''
             else if p = ''/tmp/bare'' then Inr ''id4''
             else Inl (External ''ENOENT'')),
      monaca_loggedIn = True,
      monaca_loginBody =
        Some \<lparr>serverName = ''workstation'', clientId = ''c1'', userId = ''u1''\<rparr>,
      fs_exists =
        (\<lambda>p. p \<in> set [''/tmp/app1'', ''/tmp/app1/www'', ''/tmp/app1/www/index.html'',
                        ''/tmp/app2'', ''/tmp/app2/www'', ''/tmp/app3'', ''/tmp/app3/www'',
                        ''/tmp/bare'', ''/tmp/app10'', ''/tmp/app10/secret.txt'']),
      fs_isDirectory =
        (\<lambda>p. p \<in> set [''/tmp/app1'', ''/tmp/app1/www'', ''/tmp/app2'', ''/tmp/app2/www'',
                        ''/tmp/app3'', ''/tmp/app3/www'', ''/tmp/bare'', ''/tmp/app10'']),
      fs_readFile =
        (\<lambda>p. if p = ''/tmp/app1/www/index.html'' then Inr ''<html></html>''
             else if p = ''/tmp/app10/secret.txt'' then Inr ''secret''
             else Inl (External ''ENOENT'')),
      fs_writeFile_error = (\<lambda>data. None),
      process_cwd = ''/home/dev'',
      run_throws =
        (\<lambda>w dir. if dir = ''/tmp/app3/www'' then Some (External ''EACCES'') else None),
      stop_throws = (\<lambda>w. None),
      the_config =
        \<lparr>cfg_type = ''MonacaLocalkit'', cfg_version = ''2.0'',
         beacon_send_port = 8001, beacon_send_interval = 2000\<rparr>,
      os_platform = ''linux'',
      sha1_hex = (\<lambda>u. ''0f1e2d''),
      broadcastAddresses = [''192.168.0.255'', ''10.0.0.255'']\<rparr>"

text \<open>
  Two more objects: one with \<open>/tmp/app1\<close> and \<open>/tmp/app3\<close> registered and idle, and one
  whose only project is being watched while the global flag is set.
\<close>

definition app3 :: project where
  "app3 = \<lparr>fileWatcher = fw_onchange FileWatcher_new ''id3'', path = ''/tmp/app3''\<rparr>"

definition kit13 :: localkit where
  "kit13 = new_localkit\<lparr>projects := [(''id1'', app1), (''id3'', app3)]\<rparr>"

definition kit1_watching :: localkit where
  "kit1_watching = new_localkit\<lparr>projects := [(''id1'', started app1)], p_isWatching := True\<rparr>"

text \<open>
  An environment in which the pairing-key file cannot be written, an object holding one
  pairing key, and an object whose beacon transmitter was started with no HTTP server.
\<close>

definition env_readonly :: env where
  "env_readonly = env1\<lparr>fs_writeFile_error := (\<lambda>data. Some (External ''EROFS''))\<rparr>"

definition kit_paired :: localkit where
  "kit_paired = new_localkit\<lparr>pairingKeys := [(''5e884898da'', ''pk-1'')],
                              pairing_keys_file := Some (JSON_stringify [(''5e884898da'', ''pk-1'')])\<rparr>"

definition kit_beacon :: localkit where
  "kit_beacon = snd (startBeaconTransmitter env1 kit1)"

text \<open>The object with \<open>/tmp/app1\<close> registered and the global flag set.\<close>

definition kit1_flag :: localkit where
  "kit1_flag = kit1\<lparr>p_isWatching := True\<rparr>"

text \<open>
  An enumeration whose keys lack the leading slash, and an environment with a project
  directory \<open>/tmp/flat\<close> in which \<open>www\<close> is a regular file.
\<close>

definition files_unrooted :: "nat obj" where
  "files_unrooted = [(''www/index.html'', 1), (''README.md'', 3)]"

definition enumerate_unrooted :: "string \<Rightarrow> error + nat obj" where
  "enumerate_unrooted p =
     (if p = ''/tmp/app1'' then Inr files_unrooted else Inl (External ''ENOENT''))"

definition env_flat :: env where
  "env_flat =
     env1\<lparr>getLocalProjectId :=
            (\<lambda>p. if p = ''/tmp/flat'' then Inr ''id5'' else getLocalProjectId env1 p),
          fs_exists :=
            (\<lambda>p. p = ''/tmp/flat'' \<or> p = ''/tmp/flat/www'' \<or> fs_exists env1 p),
          fs_isDirectory := (\<lambda>p. p = ''/tmp/flat'' \<or> fs_isDirectory env1 p)\<rparr>"

section \<open>File-tree filtering: proofs\<close>

lemma indexOf_from_shift: "(indexOf_from i s pat \<ge> 0) = (indexOf_from j s pat \<ge> 0)"
  by (induction s arbitrary: i j) auto

lemma split_on_nonempty: "split_on sep s \<noteq> []"
  by (induction s) (auto split: list.splits)

lemma split_on_Cons_eq:
  "split_on sep (c # cs) =
     (if c = sep then [] # split_on sep cs
      else (c # hd (split_on sep cs)) # tl (split_on sep cs))"
  using split_on_nonempty[of sep cs] by (auto split: list.splits)

lemma hd_split_on: "hd (split_on sep s) = takeWhile (\<lambda>c. c \<noteq> sep) s"
  by (induction s) (simp_all add: split_on_Cons_eq del: split_on.simps(2))

lemma indexOf_slashdot_tl:
  "(indexOf_from i s ''/.'' \<ge> 0) = list_ex (\<lambda>c. prefix ''.'' c) (tl (split_on CHR ''/'' s))"
proof (induction s arbitrary: i)
  case Nil
  show ?case by simp
next
  case (Cons c cs)
  show ?case
  proof (cases "c = CHR ''/''")
    case True
    have ne: "split_on CHR ''/'' cs \<noteq> []" by (rule split_on_nonempty)
    then obtain w ws where sp: "split_on CHR ''/'' cs = w # ws" by (cases "split_on CHR ''/'' cs") auto
    have w: "w = takeWhile (\<lambda>c. c \<noteq> CHR ''/'') cs" using hd_split_on[of "CHR ''/''" cs] sp by simp
    have pw: "prefix ''.'' w = prefix ''.'' cs"
      unfolding w by (cases cs) (auto simp: prefix_Cons)
    show ?thesis using True Cons.IH[of "Suc i"] sp pw
      by (auto simp: prefix_Cons)
  next
    case False
    then show ?thesis using Cons.IH[of "Suc i"]
      by (simp add: split_on_Cons_eq prefix_Cons del: split_on.simps(2))
  qed
qed

lemma indexOf_slash_hidden:
  "(indexOf (CHR ''/'' # p) ''/.'' \<ge> 0) = hidden_segment p"
proof -
  have "split_on CHR ''/'' (CHR ''/'' # p) = [] # split_on CHR ''/'' p" by simp
  then show ?thesis
    unfolding indexOf_def hidden_segment_def
    using indexOf_slashdot_tl[of 0 "CHR ''/'' # p"] by simp
qed

lemma length_split_on: "(length (split_on sep s) = Suc 0) = (sep \<notin> set s)"
proof (induction s)
  case Nil
  show ?case by simp
next
  case (Cons c cs)
  show ?case using Cons.IH split_on_nonempty[of sep cs]
    by (cases "split_on sep cs") (auto)
qed

lemma under_www_iff: "under_www p = (hd (split_on CHR ''/'' p) = ''www'' \<and> CHR ''/'' \<in> set p)"
proof -
  obtain w ws where sp: "split_on CHR ''/'' p = w # ws"
    using split_on_nonempty[of "CHR ''/''" p] by (cases "split_on CHR ''/'' p") auto
  have "(ws = []) = (CHR ''/'' \<notin> set p)"
    using length_split_on[of "CHR ''/''" p] sp by simp
  then show ?thesis
    unfolding under_www_def sp by (cases ws) auto
qed

lemma takeWhile_www:
  "(takeWhile (\<lambda>c. c \<noteq> CHR ''/'') p = ''www'' \<and> CHR ''/'' \<in> set p) = prefix ''www/'' p"
proof
  assume a: "takeWhile (\<lambda>c. c \<noteq> CHR ''/'') p = ''www'' \<and> CHR ''/'' \<in> set p"
  have "p = takeWhile (\<lambda>c. c \<noteq> CHR ''/'') p @ dropWhile (\<lambda>c. c \<noteq> CHR ''/'') p" by simp
  moreover have "dropWhile (\<lambda>c. c \<noteq> CHR ''/'') p \<noteq> []" using a by (simp)
  then have "\<exists>r. dropWhile (\<lambda>c. c \<noteq> CHR ''/'') p = CHR ''/'' # r"
    using hd_dropWhile[of "\<lambda>c. c \<noteq> CHR ''/''" p]
    by (cases "dropWhile (\<lambda>c. c \<noteq> CHR ''/'') p") auto
  ultimately obtain r where "p = ''www'' @ CHR ''/'' # r" using a by metis
  then show "prefix ''www/'' p" by (simp add: prefix_def)
next
  assume "prefix ''www/'' p"
  then obtain r where "p = ''www/'' @ r" by (auto simp: prefix_def)
  then show "takeWhile (\<lambda>c. c \<noteq> CHR ''/'') p = ''www'' \<and> CHR ''/'' \<in> set p" by simp
qed

lemma under_www_prefix: "under_www p = prefix ''www/'' p"
  by (simp add: under_www_iff hd_split_on takeWhile_www)

lemma fileFilter_spec: "fileFilter (CHR ''/'' # p) = spec_keeps p"
  using indexOf_slash_hidden[of p]
  by (auto simp: fileFilter_def spec_keeps_def www_regex_test_def under_www_prefix no_directory_def length_split_on)

lemma fileFilter_rooted: "fileFilter k \<Longrightarrow> \<exists>p. k = CHR ''/'' # p"
  by (cases k) (auto simp: fileFilter_def www_regex_test_def split: if_splits)


lemma map_of_obj_set: "map_of (obj_set ob k v) = (map_of ob)(k \<mapsto> v)"
  by (simp add: obj_set_def AList.update_conv')

lemma map_of_copy_files:
  "map_of (copy_files files ks tmp) k =
     (if k \<in> set ks \<and> map_of files k \<noteq> None then map_of files k else map_of tmp k)"
  by (induction ks arbitrary: tmp) (auto simp: map_of_obj_set split: option.splits)

lemma map_of_filter_files:
  "map_of (filter_files files) k = (if fileFilter k then map_of files k else None)"
proof -
  have "(map_of files k = None) = (k \<notin> fst ` set files)"
    by (rule map_of_eq_None_iff)
  then show ?thesis
    by (auto simp: filter_files_def Object_keys_def map_of_copy_files)
qed

lemma keys_obj_set: "set (Object_keys (obj_set ob k v)) = insert k (set (Object_keys ob))"
  by (simp add: Object_keys_def obj_set_def AList.dom_update)

lemma distinct_obj_set: "distinct (Object_keys ob) \<Longrightarrow> distinct (Object_keys (obj_set ob k v))"
  by (simp add: Object_keys_def obj_set_def AList.distinct_update)

lemma distinct_copy_files:
  "distinct (Object_keys tmp) \<Longrightarrow> distinct (Object_keys (copy_files files ks tmp))"
  by (induction ks arbitrary: tmp) (auto simp: distinct_obj_set split: option.splits)

lemma hasOwnProperty_keys: "hasOwnProperty ob k = (k \<in> set (Object_keys ob))"
  by (simp add: hasOwnProperty_def Object_keys_def map_of_eq_None_iff)

text \<open>
  Claim C2, as amended. For a registered project and every key \<open>k\<close> of the enumeration
  that the identity collaborator returns, \<open>getProjectFiles\<close> keeps \<open>k\<close> in its result if and
  only if \<open>k\<close> is a slash followed by a path \<open>p\<close> such that no component of \<open>p\<close> begins
  with a dot and \<open>p\<close> either lives under the top-level \<open>www\<close> directory or has no
  directory component at all: \<open>/www/.git/config\<close> and \<open>/node_modules/pkg/www/a.js\<close> are
  excluded, \<open>/www/index.html\<close> and \<open>/README.md\<close> are included.
\<close>

theorem getProjectFiles_keeps:
  assumes "map_of (projects s) projectId = Some project"
    and "getLocalProjectFiles (path project) = Inr files"
    and "hasOwnProperty files k"
  shows "\<exists>result. getProjectFiles getLocalProjectFiles s projectId = Resolved result \<and>
           (hasOwnProperty result k \<longleftrightarrow> (\<exists>p. k = CHR ''/'' # p \<and> spec_keeps p))"
proof -
  have r: "getProjectFiles getLocalProjectFiles s projectId = Resolved (filter_files files)"
    using assms(1,2) by (simp add: getProjectFiles_def)
  have "hasOwnProperty (filter_files files) k = fileFilter k"
    using assms(3) by (simp add: hasOwnProperty_def map_of_filter_files)
  moreover have "fileFilter k = (\<exists>p. k = CHR ''/'' # p \<and> spec_keeps p)"
    using fileFilter_rooted[of k] fileFilter_spec by auto
  ultimately show ?thesis using r by simp
qed

lemma kit1_id1: "map_of (projects kit1) ''id1'' = Some app1"
  by (simp add: kit1_def)

lemma enumerate1_app1: "enumerate1 (path app1) = Inr files1"
  by (simp add: enumerate1_def app1_def)

lemma files1_index: "hasOwnProperty files1 ''/www/index.html''"
  by (simp add: hasOwnProperty_def files1_def)

theorem getProjectFiles_keeps_witness:
  "map_of (projects kit1) ''id1'' = Some app1 \<and>
   enumerate1 (path app1) = Inr files1 \<and>
   hasOwnProperty files1 ''/www/index.html'' \<and>
   (\<exists>result. getProjectFiles enumerate1 kit1 ''id1'' = Resolved result \<and>
      (hasOwnProperty result ''/www/index.html'' \<longleftrightarrow>
         (\<exists>p. ''/www/index.html'' = CHR ''/'' # p \<and> spec_keeps p)))"
  using getProjectFiles_keeps [of kit1 "''id1''" app1 enumerate1 files1 "''/www/index.html''"]
    kit1_id1 enumerate1_app1 files1_index by blast

text \<open>
  The four paths named by the specification, as the code treats them and as the
  specification's words classify them.
\<close>

lemma getProjectFiles_example:
  "getProjectFiles enumerate1 kit1 ''id1'' =
     Resolved [(''/www/index.html'', 1), (''/README.md'', 3)]"
  by (simp add: getProjectFiles_def kit1_def app1_def enumerate1_def files1_def
      filter_files_def Object_keys_def fileFilter_def indexOf_def www_regex_test_def
      obj_set_def)

lemma spec_keeps_examples:
  "spec_keeps ''www/index.html'' \<and> spec_keeps ''README.md'' \<and>
   \<not> spec_keeps ''www/.git/config'' \<and> \<not> spec_keeps ''node_modules/pkg/www/a.js''"
  by (simp add: spec_keeps_def hidden_segment_def under_www_def no_directory_def)

text \<open>
  Claim C2, as stated, fails. An enumeration keyed by the paths as the claim writes them,
  \<open>www/index.html\<close> and \<open>README.md\<close>, has both keys dropped, although neither path has a
  component beginning with a dot, the first lives under \<open>www\<close> and the second has no
  directory component: a key is looked at only when it begins with a slash.
\<close>

theorem getProjectFiles_drops_unrooted_keys:
  "map_of (projects kit1) ''id1'' = Some app1 \<and>
   enumerate_unrooted (path app1) = Inr [(''www/index.html'', 1), (''README.md'', 3)] \<and>
   spec_keeps ''www/index.html'' \<and> spec_keeps ''README.md'' \<and>
   getProjectFiles enumerate_unrooted kit1 ''id1'' = Resolved []"
proof -
  have a: "map_of (projects kit1) ''id1'' = Some app1"
    by (simp add: kit1_def)
  have b: "enumerate_unrooted (path app1) = Inr [(''www/index.html'', 1), (''README.md'', 3)]"
    by (simp add: enumerate_unrooted_def files_unrooted_def app1_def)
  have c: "spec_keeps ''www/index.html'' \<and> spec_keeps ''README.md''"
    by (simp add: spec_keeps_def hidden_segment_def under_www_def no_directory_def)
  have d: "\<not> fileFilter ''www/index.html'' \<and> \<not> fileFilter ''README.md''"
    by (simp add: fileFilter_def indexOf_def www_regex_test_def)
  have "getProjectFiles enumerate_unrooted kit1 ''id1'' = Resolved []"
    using a b d by (simp add: getProjectFiles_def filter_files_def Object_keys_def)
  then show ?thesis using a b c by simp
qed

text \<open>
  Claim C10. The result of \<open>getProjectFiles\<close> is a restriction of the file map produced by
  the identity collaborator: as a map it is that map restricted to the keys the filter
  lets through, every key of the result is a key of the collaborator's map bound to the
  identical value, and no key is added, renamed or repeated.
\<close>

theorem getProjectFiles_restriction:
  assumes "getProjectFiles getLocalProjectFiles s projectId = Resolved result"
  shows "\<exists>project files.
           map_of (projects s) projectId = Some project \<and>
           getLocalProjectFiles (path project) = Inr files \<and>
           map_of result = map_of files |` {k. fileFilter k} \<and>
           (\<forall>k v. map_of result k = Some v \<longrightarrow> map_of files k = Some v) \<and>
           set (Object_keys result) \<subseteq> set (Object_keys files) \<and>
           distinct (Object_keys result)"
proof -
  from assms obtain project files where
    p: "map_of (projects s) projectId = Some project" and
    f: "getLocalProjectFiles (path project) = Inr files" and
    r: "result = filter_files files"
    by (auto simp: getProjectFiles_def split: option.splits sum.splits)
  have m: "map_of result = map_of files |` {k. fileFilter k}"
    by (rule ext) (simp add: r map_of_filter_files restrict_map_def)
  have v: "\<forall>k v. map_of result k = Some v \<longrightarrow> map_of files k = Some v"
    by (simp add: r map_of_filter_files split: if_splits)
  have "\<And>k. k \<in> set (Object_keys result) \<Longrightarrow> k \<in> set (Object_keys files)"
    using v by (metis hasOwnProperty_keys hasOwnProperty_def not_Some_eq)
  then have k: "set (Object_keys result) \<subseteq> set (Object_keys files)" by blast
  have d: "distinct (Object_keys result)"
    unfolding r filter_files_def by (rule distinct_copy_files) (simp add: Object_keys_def)
  show ?thesis using p f m v k d by blast
qed

theorem getProjectFiles_restriction_witness:
  "getProjectFiles enumerate1 kit1 ''id1'' = Resolved [(''/www/index.html'', 1), (''/README.md'', 3)] \<and>
   (\<exists>project files.
           map_of (projects kit1) ''id1'' = Some project \<and>
           enumerate1 (path project) = Inr files \<and>
           map_of [(''/www/index.html'', 1::nat), (''/README.md'', 3)] = map_of files |` {k. fileFilter k} \<and>
           (\<forall>k v. map_of [(''/www/index.html'', 1::nat), (''/README.md'', 3)] k = Some v \<longrightarrow> map_of files k = Some v) \<and>
           set (Object_keys [(''/www/index.html'', 1::nat), (''/README.md'', 3)]) \<subseteq> set (Object_keys files) \<and>
           distinct (Object_keys [(''/www/index.html'', 1::nat), (''/README.md'', 3)]))"
  using getProjectFiles_restriction [of enumerate1 kit1 "''id1''", OF getProjectFiles_example]
    getProjectFiles_example
  by blast

section \<open>Registry and watch controller: proofs\<close>

lemma removeProject_unknown:
  "getLocalProjectId en p = Inr i \<Longrightarrow> map_of (projects s) i = None \<Longrightarrow>
     removeProject en s p = (Pending, s)"
  by (simp add: removeProject_def)

text \<open>
  Claim C3. Unregistering a path whose resolved id is not in the registry should fail
  with an unknown-project error and leave the registry unchanged. The registry is indeed
  left unchanged, but the promise is never settled: with only \<open>/tmp/app1\<close> registered,
  \<open>removeProject\<close> of \<open>/tmp/app2\<close> is neither rejected nor resolved.
\<close>

theorem removeProject_unknown_never_settles:
  "getLocalProjectId env1 ''/tmp/app2'' = Inr ''id2'' \<and>
   \<not> hasOwnProperty (projects kit1) ''id2'' \<and>
   removeProject env1 kit1 ''/tmp/app2'' = (Pending, kit1)"
  by (simp add: removeProject_def env1_def kit1_def hasOwnProperty_def)

text \<open>
  Claim C7, as amended. For a path whose id the identity collaborator resolves and under
  which nothing named \<open>www\<close> exists, \<open>addProject\<close> is rejected with the
  missing-content-root error and the object is left as it was; and whenever \<open>addProject\<close>
  is rejected, for whatever reason (id resolution, missing content root, watcher start),
  the object, and with it the registry, is exactly as before the call. The promise is
  always settled.
\<close>

theorem addProject_failure_leaves_registry:
  "(getLocalProjectId en p = Inr i \<longrightarrow> \<not> fs_exists en (path_join p ''www'') \<longrightarrow>
      addProject en s p = (Rejected (MissingContentRoot p), s)) \<and>
   (\<forall>e. fst (addProject en s p) = Rejected e \<longrightarrow> snd (addProject en s p) = s) \<and>
   fst (addProject en s p) \<noteq> Pending"
  by (auto simp: addProject_def Let_def split: sum.splits)

lemma path_join_bare: "path_join ''/tmp/bare'' ''www'' = ''/tmp/bare/www''"
  by (simp add: path_join_def path_normalize_def isAbsolute_def)

lemma path_join_app3: "path_join ''/tmp/app3'' ''www'' = ''/tmp/app3/www''"
  by (simp add: path_join_def path_normalize_def isAbsolute_def)

lemma addProject_bare:
  "addProject env1 kit1 ''/tmp/bare'' = (Rejected (MissingContentRoot ''/tmp/bare''), kit1)"
  by (simp add: addProject_def path_join_bare env1_def)

lemma addProject_app3_watching:
  "addProject env1 (kit1\<lparr>p_isWatching := True\<rparr>) ''/tmp/app3'' =
     (Rejected (External ''EACCES''), kit1\<lparr>p_isWatching := True\<rparr>)"
  by (simp add: addProject_def path_join_app3 env1_def kit1_def hasOwnProperty_def
      isWatching_def fw_run_def Let_def)

theorem addProject_failure_leaves_registry_witness:
  "getLocalProjectId env1 ''/tmp/bare'' = Inr ''id4'' \<and>
   \<not> fs_exists env1 (path_join ''/tmp/bare'' ''www'') \<and>
   addProject env1 kit1 ''/tmp/bare'' = (Rejected (MissingContentRoot ''/tmp/bare''), kit1) \<and>
   fst (addProject env1 (kit1\<lparr>p_isWatching := True\<rparr>) ''/tmp/app3'') = Rejected (External ''EACCES'') \<and>
   snd (addProject env1 (kit1\<lparr>p_isWatching := True\<rparr>) ''/tmp/app3'') = kit1\<lparr>p_isWatching := True\<rparr>"
proof -
  have a: "getLocalProjectId env1 ''/tmp/bare'' = Inr ''id4''"
    by (simp add: env1_def)
  have b: "\<not> fs_exists env1 (path_join ''/tmp/bare'' ''www'')"
    by (simp add: path_join_bare env1_def)
  have c: "fst (addProject env1 (kit1\<lparr>p_isWatching := True\<rparr>) ''/tmp/app3'') = Rejected (External ''EACCES'')"
    by (simp add: addProject_app3_watching)
  from addProject_failure_leaves_registry [of env1 "''/tmp/bare''" "''id4''" kit1] a b
  have d: "addProject env1 kit1 ''/tmp/bare'' = (Rejected (MissingContentRoot ''/tmp/bare''), kit1)"
    by blast
  from addProject_failure_leaves_registry
         [of env1 "''/tmp/app3''" "''id3''" "kit1\<lparr>p_isWatching := True\<rparr>"] c
  have e: "snd (addProject env1 (kit1\<lparr>p_isWatching := True\<rparr>) ''/tmp/app3'') = kit1\<lparr>p_isWatching := True\<rparr>"
    by blast
  show ?thesis using a b c d e by simp
qed

text \<open>
  Claim C7, as stated, fails. \<open>/tmp/nowhere\<close> has no \<open>www\<close> subdirectory, and the identity
  collaborator does not resolve it: \<open>addProject\<close> is rejected with the collaborator's
  error, not with the missing-content-root error. And \<open>/tmp/flat\<close>, in which \<open>www\<close> is a
  regular file and no directory, is registered.
\<close>

theorem addProject_without_www_other_outcomes:
  "\<not> fs_exists env1 (path_join ''/tmp/nowhere'' ''www'') \<and>
   addProject env1 kit1 ''/tmp/nowhere'' = (Rejected (External ''ENOENT''), kit1) \<and>
   External ''ENOENT'' \<noteq> MissingContentRoot ''/tmp/nowhere'' \<and>
   \<not> fs_isDirectory env_flat (path_join ''/tmp/flat'' ''www'') \<and>
   fst (addProject env_flat kit1 ''/tmp/flat'') = Resolved ''id5'' \<and>
   hasOwnProperty (projects (snd (addProject env_flat kit1 ''/tmp/flat''))) ''id5''"
proof -
  have j1: "path_join ''/tmp/nowhere'' ''www'' = ''/tmp/nowhere/www''"
    by (simp add: path_join_def path_normalize_def isAbsolute_def)
  have j2: "path_join ''/tmp/flat'' ''www'' = ''/tmp/flat/www''"
    by (simp add: path_join_def path_normalize_def isAbsolute_def)
  have a: "\<not> fs_exists env1 ''/tmp/nowhere/www''"
    by (simp add: env1_def)
  have b: "addProject env1 kit1 ''/tmp/nowhere'' = (Rejected (External ''ENOENT''), kit1)"
    by (simp add: addProject_def env1_def)
  have c: "getLocalProjectId env_flat ''/tmp/flat'' = Inr ''id5'' \<and>
           fs_exists env_flat ''/tmp/flat/www'' \<and>
           \<not> fs_isDirectory env_flat ''/tmp/flat/www''"
    by (simp add: env_flat_def env1_def)
  have d: "\<not> hasOwnProperty (projects kit1) ''id5'' \<and> \<not> isWatching kit1"
    by (simp add: kit1_def new_localkit_def hasOwnProperty_def isWatching_def)
  have e: "addProject env_flat kit1 ''/tmp/flat'' =
             (Resolved ''id5'',
              kit1\<lparr>projects := obj_set (projects kit1) ''id5''
                      \<lparr>fileWatcher = fw_onchange FileWatcher_new ''id5'',
                       path = ''/tmp/flat''\<rparr>\<rparr>)"
    using c d by (simp add: addProject_def j2 Let_def)
  have f: "hasOwnProperty (projects (snd (addProject env_flat kit1 ''/tmp/flat''))) ''id5''"
    by (simp add: e hasOwnProperty_def map_of_obj_set)
  show ?thesis using a b c e f by (simp add: j1 j2)
qed

lemma paths_of_cong:
  "(\<And>j. j \<in> set ids \<Longrightarrow> m j = m' j) \<Longrightarrow> paths_of en m ids = paths_of en m' ids"
  unfolding paths_of_def by (induction ids) auto

lemma paths_of_Cons:
  "paths_of en m (i # ids) =
     (case m i of
        Some p \<Rightarrow> if run_throws en (fileWatcher p) (path_join (path p) ''www'') = None
                  then [path_join (path p) ''www''] else []
      | None \<Rightarrow> []) @ paths_of en m ids"
  by (simp add: paths_of_def)

lemma startWatch_loop_paths:
  "distinct ids \<Longrightarrow>
     fst (startWatch_loop en ids (paths, s)) = paths @ paths_of en (map_of (projects s)) ids"
proof (induction ids arbitrary: paths s)
  case Nil
  show ?case by (simp add: paths_of_def)
next
  case (Cons i ids)
  then have d: "distinct ids" and ni: "i \<notin> set ids" by auto
  show ?case
  proof (cases "map_of (projects s) i")
    case None
    then show ?thesis using Cons.IH[OF d] by (simp add: paths_of_Cons)
  next
    case (Some p)
    show ?thesis
    proof (cases "run_throws en (fileWatcher p) (path_join (path p) ''www'')")
      case (Some e)
      then show ?thesis using \<open>map_of (projects s) i = Some p\<close> Cons.IH[OF d]
        by (simp add: paths_of_Cons fw_run_def Let_def)
    next
      case None
      have "paths_of en (map_of (obj_set (projects s) i (started p))) ids
              = paths_of en (map_of (projects s)) ids"
        by (rule paths_of_cong) (use ni in \<open>auto simp: map_of_obj_set\<close>)
      then show ?thesis using None \<open>map_of (projects s) i = Some p\<close> Cons.IH[OF d]
        by (simp add: paths_of_Cons fw_run_def started_def Let_def)
    qed
  qed
qed

lemma startWatch_loop_projects:
  "distinct ids \<Longrightarrow>
     map_of (projects (snd (startWatch_loop en ids (paths, s)))) j =
       (if j \<in> set ids
        then map_option
               (\<lambda>p. if run_throws en (fileWatcher p) (path_join (path p) ''www'') = None
                    then started p else p)
               (map_of (projects s) j)
        else map_of (projects s) j)"
proof (induction ids arbitrary: paths s)
  case Nil
  show ?case by simp
next
  case (Cons i ids)
  then have d: "distinct ids" and ni: "i \<notin> set ids" by auto
  show ?case
  proof (cases "map_of (projects s) i")
    case None
    then show ?thesis using Cons.IH[OF d] ni by auto
  next
    case (Some p)
    show ?thesis
    proof (cases "run_throws en (fileWatcher p) (path_join (path p) ''www'')")
      case (Some e)
      then show ?thesis using \<open>map_of (projects s) i = Some p\<close> Cons.IH[OF d] ni
        by (auto simp: fw_run_def Let_def)
    next
      case None
      then show ?thesis using \<open>map_of (projects s) i = Some p\<close> Cons.IH[OF d] ni
        by (auto simp: fw_run_def map_of_obj_set started_def Let_def)
    qed
  qed
qed

lemma paths_of_idle:
  "(\<And>i p. (i, p) \<in> set qs \<Longrightarrow> m i = Some p) \<Longrightarrow>
     paths_of en m
       (filter (\<lambda>i. case m i of Some p \<Rightarrow> \<not> isRunning (fileWatcher p) | None \<Rightarrow> False)
          (map fst qs))
     = map (\<lambda>(i, p). path_join (path p) ''www'') (filter (\<lambda>(i, p). attached en p) qs)"
proof (induction qs)
  case Nil
  show ?case by (simp add: paths_of_def)
next
  case (Cons q qs)
  obtain i p where q: "q = (i, p)" by (cases q)
  have m: "m i = Some p" using Cons.prems[of i p] q by simp
  have IH: "paths_of en m
       (filter (\<lambda>i. case m i of Some p \<Rightarrow> \<not> isRunning (fileWatcher p) | None \<Rightarrow> False)
          (map fst qs))
     = map (\<lambda>(i, p). path_join (path p) ''www'') (filter (\<lambda>(i, p). attached en p) qs)"
    by (rule Cons.IH) (use Cons.prems in auto)
  show ?case using m IH by (simp add: q paths_of_Cons attached_def)
qed

lemma distinct_idle_ids: "distinct (Object_keys (projects s)) \<Longrightarrow> distinct (idle_ids s)"
  by (simp add: idle_ids_def)

text \<open>
  Claim C4. \<open>startWatch\<close> always resolves, whatever watchers fail to start, and it
  resolves with exactly the \<open>www\<close> directories of the registered projects it attached to,
  in registry order: those whose watcher was idle when the call began and on which the
  watch primitive started. Afterwards exactly these projects have become started; every
  other entry is as before. (The keys of an object are distinct.)
\<close>

theorem startWatch_always_resolves:
  assumes "distinct (Object_keys (projects s))"
  shows "fst (startWatch en s) =
           Resolved (map (\<lambda>(i, p). path_join (path p) ''www'')
                       (filter (\<lambda>(i, p). attached en p) (projects s))) \<and>
         (\<forall>j. map_of (projects (snd (startWatch en s))) j =
                map_option (\<lambda>p. if attached en p then started p else p)
                  (map_of (projects s) j))"
proof -
  have d: "distinct (idle_ids s)" using assms by (rule distinct_idle_ids)
  obtain paths s' where l: "startWatch_loop en (idle_ids s) ([], s) = (paths, s')"
    by (cases "startWatch_loop en (idle_ids s) ([], s)")
  have lookup: "\<And>i p. (i, p) \<in> set (projects s) \<Longrightarrow> map_of (projects s) i = Some p"
    using assms by (simp add: Object_keys_def)
  have "paths = paths_of en (map_of (projects s)) (idle_ids s)"
    using startWatch_loop_paths[OF d, of en "[]" s] l by simp
  also have "\<dots> = map (\<lambda>(i, p). path_join (path p) ''www'')
                      (filter (\<lambda>(i, p). attached en p) (projects s))"
    unfolding idle_ids_def Object_keys_def by (rule paths_of_idle) (rule lookup)
  finally have r: "fst (startWatch en s) =
           Resolved (map (\<lambda>(i, p). path_join (path p) ''www'')
                       (filter (\<lambda>(i, p). attached en p) (projects s)))"
    by (simp add: startWatch_def l)
  have "\<And>j. map_of (projects s') j =
                map_option (\<lambda>p. if attached en p then started p else p)
                  (map_of (projects s) j)"
  proof -
    fix j
    have in_idle: "j \<in> set (idle_ids s) \<longleftrightarrow>
            (\<exists>p. map_of (projects s) j = Some p \<and> \<not> isRunning (fileWatcher p))"
      by (force simp: idle_ids_def Object_keys_def split: option.splits
               dest: map_of_SomeD)
    show "map_of (projects s') j =
                map_option (\<lambda>p. if attached en p then started p else p)
                  (map_of (projects s) j)"
      using startWatch_loop_projects[OF d, of en "[]" s j] l in_idle
      by (cases "map_of (projects s) j") (auto simp: attached_def)
  qed
  then have "\<forall>j. map_of (projects (snd (startWatch en s))) j =
                map_option (\<lambda>p. if attached en p then started p else p)
                  (map_of (projects s) j)"
    by (simp add: startWatch_def l)
  with r show ?thesis by blast
qed

lemma path_join_app1: "path_join ''/tmp/app1'' ''www'' = ''/tmp/app1/www''"
  by (simp add: path_join_def path_normalize_def isAbsolute_def)

lemma attached_app1: "attached env1 app1"
  by (simp add: attached_def app1_def env1_def isRunning_def fw_onchange_def
      FileWatcher_new_def path_join_app1)

lemma not_attached_app3: "\<not> attached env1 app3"
  by (simp add: attached_def app3_def env1_def path_join_app3)

lemma distinct_kit13: "distinct (Object_keys (projects kit13))"
  by (simp add: kit13_def Object_keys_def)

theorem startWatch_always_resolves_witness:
  "distinct (Object_keys (projects kit13)) \<and>
   fst (startWatch env1 kit13) = Resolved [''/tmp/app1/www''] \<and>
   map_of (projects (snd (startWatch env1 kit13))) ''id1'' = Some (started app1) \<and>
   map_of (projects (snd (startWatch env1 kit13))) ''id3'' = Some app3"
proof -
  have p: "projects kit13 = [(''id1'', app1), (''id3'', app3)]"
    by (simp add: kit13_def)
  have a1: "path app1 = ''/tmp/app1''"
    by (simp add: app1_def)
  show ?thesis
    using startWatch_always_resolves [of kit13 env1, OF distinct_kit13] distinct_kit13
    by (simp add: p attached_app1 not_attached_app3 a1 path_join_app1)
qed

lemma stopWatch_map_flag: "p_isWatching (snd (stopWatch_map en ids s)) = p_isWatching s"
proof (induction ids arbitrary: s)
  case Nil
  show ?case by simp
next
  case (Cons i ids)
  show ?case
  proof (cases "map_of (projects s) i")
    case None
    then show ?thesis using Cons.IH[of s]
      by (simp add: split_beta)
  next
    case (Some p)
    show ?thesis
    proof (cases "fw_stop en (fileWatcher p)")
      case (Inl e)
      then show ?thesis using Some Cons.IH[of s]
        by (simp add: split_beta)
    next
      case (Inr w')
      then show ?thesis
        using Some Cons.IH[of "s\<lparr>projects := obj_set (projects s) i (p\<lparr>fileWatcher := w'\<rparr>)\<rparr>"]
        by (simp add: split_beta)
    qed
  qed
qed

text \<open>
  Claim C5. After \<open>startWatch\<close> the global flag \<open>isWatching\<close> reads false, and so it does
  after \<open>stopWatch\<close> has resolved, whatever it was before and whatever the states of the
  watchers. A rejected \<open>stopWatch\<close> does not assign the flag; it then stays false if it was
  false, as it is from the constructor on.
\<close>

theorem watch_flag_false_after_start_stop:
  "\<not> isWatching (snd (startWatch en s)) \<and>
   (\<forall>paths. fst (stopWatch en s) = Resolved paths \<longrightarrow> \<not> isWatching (snd (stopWatch en s))) \<and>
   (\<not> isWatching s \<longrightarrow> \<not> isWatching (snd (stopWatch en s)))"
proof -
  have a: "\<not> isWatching (snd (startWatch en s))"
    by (simp add: startWatch_def isWatching_def split: prod.splits)
  obtain ps s' where m: "stopWatch_map en (running_ids s) s = (ps, s')"
    by (cases "stopWatch_map en (running_ids s) s")
  have f: "p_isWatching s' = p_isWatching s"
    using stopWatch_map_flag[of en "running_ids s" s] m by simp
  have b: "\<forall>paths. fst (stopWatch en s) = Resolved paths \<longrightarrow> \<not> isWatching (snd (stopWatch en s))"
    by (auto simp: stopWatch_def m isWatching_def split: promise.splits)
  have c: "\<not> isWatching s \<longrightarrow> \<not> isWatching (snd (stopWatch en s))"
    using f by (auto simp: stopWatch_def m isWatching_def split: promise.splits)
  from a b c show ?thesis by blast
qed

lemma stopWatch_kit1_watching:
  "stopWatch env1 kit1_watching =
     (Resolved [''/tmp/app1''],
      kit1_watching\<lparr>projects := [(''id1'', app1)], p_isWatching := False\<rparr>)"
  by (simp add: stopWatch_def kit1_watching_def running_ids_def Object_keys_def started_def
      app1_def isRunning_def fw_stop_def env1_def Q_all_def obj_set_def new_localkit_def
      fw_onchange_def FileWatcher_new_def)

theorem watch_flag_false_after_start_stop_witness:
  "isWatching kit1_watching \<and>
   \<not> isWatching (snd (startWatch env1 kit1_watching)) \<and>
   fst (stopWatch env1 kit1_watching) = Resolved [''/tmp/app1''] \<and>
   \<not> isWatching (snd (stopWatch env1 kit1_watching)) \<and>
   \<not> isWatching kit1 \<and>
   \<not> isWatching (snd (stopWatch env1 kit1))"
proof -
  have a: "isWatching kit1_watching"
    by (simp add: isWatching_def kit1_watching_def)
  have b: "fst (stopWatch env1 kit1_watching) = Resolved [''/tmp/app1'']"
    by (simp add: stopWatch_kit1_watching)
  have c: "\<not> isWatching kit1"
    by (simp add: isWatching_def kit1_def new_localkit_def)
  show ?thesis
    using watch_flag_false_after_start_stop [of env1 kit1_watching]
      watch_flag_false_after_start_stop [of env1 kit1] a b c
    by blast
qed

section \<open>Pairing keys and beacon: proofs\<close>

lemma JSON_stringify_empty: "JSON_stringify [] = ''{}''"
  by (simp add: JSON_stringify_def)

text \<open>
  Claim C8. \<open>clearPairing\<close> resets the in-memory pairing-key map to empty before it
  attempts the write, and what it writes is the whole file, the text of the empty map.
  When the write fails the operation fails with the write's error and the in-memory map
  is empty all the same (no rollback); when the write succeeds the operation resolves and
  the file holds the empty map, \<open>{}\<close>.
\<close>

theorem clearPairing_resets_before_write:
  "pairingKeys (snd (clearPairing en s)) = [] \<and>
   (\<forall>e. fs_writeFile_error en (JSON_stringify []) = Some e \<longrightarrow>
        fst (clearPairing en s) = Rejected e \<and>
        pairing_keys_file (snd (clearPairing en s)) = pairing_keys_file s) \<and>
   (fs_writeFile_error en (JSON_stringify []) = None \<longrightarrow>
        fst (clearPairing en s) = Resolved () \<and>
        pairing_keys_file (snd (clearPairing en s)) = Some (JSON_stringify [])) \<and>
   JSON_stringify [] = ''{}''"
  by (auto simp: clearPairing_def Let_def JSON_stringify_empty split: option.splits)

theorem clearPairing_resets_before_write_witness:
  "pairingKeys kit_paired = [(''5e884898da'', ''pk-1'')] \<and>
   fs_writeFile_error env_readonly (JSON_stringify []) = Some (External ''EROFS'') \<and>
   fst (clearPairing env_readonly kit_paired) = Rejected (External ''EROFS'') \<and>
   pairingKeys (snd (clearPairing env_readonly kit_paired)) = [] \<and>
   pairing_keys_file (snd (clearPairing env_readonly kit_paired)) = pairing_keys_file kit_paired \<and>
   fs_writeFile_error env1 (JSON_stringify []) = None \<and>
   fst (clearPairing env1 kit_paired) = Resolved () \<and>
   pairingKeys (snd (clearPairing env1 kit_paired)) = [] \<and>
   pairing_keys_file (snd (clearPairing env1 kit_paired)) = Some ''{}''"
proof -
  have a: "pairingKeys kit_paired = [(''5e884898da'', ''pk-1'')]"
    by (simp add: kit_paired_def)
  have b: "fs_writeFile_error env_readonly (JSON_stringify []) = Some (External ''EROFS'')"
    by (simp add: env_readonly_def)
  have c: "fs_writeFile_error env1 (JSON_stringify []) = None"
    by (simp add: env1_def)
  show ?thesis
    using clearPairing_resets_before_write [of env_readonly kit_paired]
      clearPairing_resets_before_write [of env1 kit_paired] a b c
    by simp
qed

lemma no_listener_port: "no_listener s \<Longrightarrow> server_port s = Inl TypeError"
  by (auto simp: no_listener_def server_port_def split: option.splits)

text \<open>
  Claim C9. When the broadcast step runs while no HTTP listener is bound, it logs the
  condition and stops the transmitter: the timer held by the object is cancelled and the
  transmitter is marked as not running. No UDP socket is opened on that tick; the step
  ends with the exception that the second read of the port raises.
\<close>

theorem sendBeacon_without_listener:
  assumes "no_listener s"
  shows "fst (sendBeacon en s) = Inl TypeError \<and>
         console (snd (sendBeacon en s)) = console s @ [UnableToGetCurrentPort] \<and>
         p_interval (snd (sendBeacon en s)) = None \<and>
         udp_sockets (snd (sendBeacon en s)) = udp_sockets s \<and>
         (\<forall>t. p_interval s = Some t \<longrightarrow>
              t \<notin> set (timers (snd (sendBeacon en s))) \<and>
              \<not> beaconTransmitterRunning (snd (sendBeacon en s)))"
proof -
  let ?s0 = "s\<lparr>console := console s @ [UnableToGetCurrentPort]\<rparr>"
  let ?s1 = "snd (stopBeaconTransmitter ?s0)"
  have p: "server_port s = Inl TypeError"
    using assms by (rule no_listener_port)
  have "no_listener ?s1"
    using assms by (simp add: no_listener_def stopBeaconTransmitter_def split: option.splits)
  then have "server_port ?s1 = Inl TypeError"
    by (rule no_listener_port)
  then have r: "sendBeacon en s = (Inl TypeError, ?s1)"
    using p by (simp add: sendBeacon_def getServerInfo_def)
  show ?thesis
    unfolding r by (simp add: stopBeaconTransmitter_def split: option.splits)
qed

theorem sendBeacon_without_listener_witness:
  "no_listener kit_beacon \<and>
   p_interval kit_beacon = Some 0 \<and> timers kit_beacon = [0] \<and>
   beaconTransmitterRunning kit_beacon \<and>
   fst (sendBeacon env1 kit_beacon) = Inl TypeError \<and>
   console (snd (sendBeacon env1 kit_beacon)) = [UnableToGetCurrentPort] \<and>
   p_interval (snd (sendBeacon env1 kit_beacon)) = None \<and>
   udp_sockets (snd (sendBeacon env1 kit_beacon)) = [] \<and>
   0 \<notin> set (timers (snd (sendBeacon env1 kit_beacon))) \<and>
   \<not> beaconTransmitterRunning (snd (sendBeacon env1 kit_beacon))"
proof -
  have k: "kit_beacon =
             kit1\<lparr>timers := [0], next_timer := Suc 0, p_interval := Some 0,
                  beaconTransmitterRunning := True\<rparr>"
    by (simp add: kit_beacon_def startBeaconTransmitter_def env1_def kit1_def new_localkit_def)
  have a: "no_listener kit_beacon"
    by (simp add: k no_listener_def kit1_def new_localkit_def)
  have b: "p_interval kit_beacon = Some 0 \<and> timers kit_beacon = [0] \<and>
           beaconTransmitterRunning kit_beacon \<and> console kit_beacon = [] \<and>
           udp_sockets kit_beacon = []"
    by (simp add: k kit1_def new_localkit_def)
  show ?thesis
    using sendBeacon_without_listener [of kit_beacon env1, OF a] a b
    by simp
qed

section \<open>Traversal guard: proofs\<close>

text \<open>
  The filesystem is consulted only after the guard has passed; and the two paths the
  specification names are treated as it says: \<open>../../etc/passwd\<close> is rejected without
  any filesystem call, \<open>./index.html\<close> passes the guard and lies within the root.
\<close>

lemma readProjectFile_guard_first:
  assumes "snd (readProjectFile en s projectId filePath) \<noteq> []"
  shows "\<exists>project. map_of (projects s) projectId = Some project \<and>
           guard_passes (process_cwd en) (path project) filePath"
  using assms
  by (auto simp: readProjectFile_def Let_def split: option.splits if_splits sum.splits)

lemma readProjectFile_rejects_etc_passwd:
  "readProjectFile env1 kit1 ''id1'' ''../../etc/passwd'' = (Rejected PathTraversal, [])"
proof -
  have a: "map_of (projects kit1) ''id1'' = Some app1 \<and> path app1 = ''/tmp/app1''"
    by (simp add: kit1_def app1_def)
  have j: "path_join ''/tmp/app1'' (strip_leading_slash ''../../etc/passwd'') = ''/etc/passwd''"
    by (simp add: path_join_def path_normalize_def isAbsolute_def strip_leading_slash_def)
  have r1: "path_resolve (process_cwd env1) ''/tmp/app1'' = ''/tmp/app1''"
    by (simp add: path_resolve_def isAbsolute_def)
  have r2: "path_resolve (process_cwd env1) ''/etc/passwd'' = ''/etc/passwd''"
    by (simp add: path_resolve_def isAbsolute_def)
  have g: "\<not> guard_passes (process_cwd env1) ''/tmp/app1'' ''../../etc/passwd''"
    by (simp add: guard_passes_def j r1 r2 indexOf_def)
  show ?thesis using a g by (simp add: readProjectFile_def Let_def)
qed

lemma readProjectFile_accepts_index_html:
  "guard_passes (process_cwd env1) ''/tmp/app1'' ''./index.html'' \<and>
   lies_within ''/tmp/app1''
     (path_resolve (process_cwd env1)
        (path_join ''/tmp/app1'' (strip_leading_slash ''./index.html'')))"
proof -
  have j: "path_join ''/tmp/app1'' (strip_leading_slash ''./index.html'') = ''/tmp/app1/index.html''"
    by (simp add: path_join_def path_normalize_def isAbsolute_def strip_leading_slash_def)
  have r1: "path_resolve (process_cwd env1) ''/tmp/app1'' = ''/tmp/app1''"
    by (simp add: path_resolve_def isAbsolute_def)
  have r2: "path_resolve (process_cwd env1) ''/tmp/app1/index.html'' = ''/tmp/app1/index.html''"
    by (simp add: path_resolve_def isAbsolute_def)
  have g: "guard_passes (process_cwd env1) ''/tmp/app1'' ''./index.html''"
    by (simp add: guard_passes_def j r1 r2 indexOf_def)
  have l: "lies_within ''/tmp/app1'' ''/tmp/app1/index.html''"
    by (simp add: lies_within_def path_components_def)
  show ?thesis using g l by (simp add: j r2)
qed

text \<open>
  Claim C1. \<open>readProjectFile\<close> should fail with a path-traversal error exactly when the
  canonicalised join of the project root and the client's path does not lie within the
  root. The guard compares the two resolved paths as strings, so a sibling directory whose
  name extends the root's name passes: with \<open>/tmp/app1\<close> registered, the client's path
  \<open>../app10/secret.txt\<close> resolves to \<open>/tmp/app10/secret.txt\<close>, which does not lie within
  \<open>/tmp/app1\<close>, and the file is read and returned.
\<close>

theorem readProjectFile_reads_sibling_directory:
  "map_of (projects kit1) ''id1'' = Some app1 \<and> path app1 = ''/tmp/app1'' \<and>
   path_resolve (process_cwd env1) (path app1) = ''/tmp/app1'' \<and>
   path_resolve (process_cwd env1)
     (path_join (path app1) (strip_leading_slash ''../app10/secret.txt''))
     = ''/tmp/app10/secret.txt'' \<and>
   \<not> lies_within ''/tmp/app1'' ''/tmp/app10/secret.txt'' \<and>
   readProjectFile env1 kit1 ''id1'' ''../app10/secret.txt'' =
     (Resolved ''secret'',
      [Exists ''/tmp/app10/secret.txt'', Lstat ''/tmp/app10/secret.txt'',
       ReadFile ''/tmp/app10/secret.txt''])"
proof -
  have a: "map_of (projects kit1) ''id1'' = Some app1 \<and> path app1 = ''/tmp/app1''"
    by (simp add: kit1_def app1_def)
  have j: "path_join ''/tmp/app1'' (strip_leading_slash ''../app10/secret.txt'')
             = ''/tmp/app10/secret.txt''"
    by (simp add: path_join_def path_normalize_def isAbsolute_def strip_leading_slash_def)
  have r1: "path_resolve (process_cwd env1) ''/tmp/app1'' = ''/tmp/app1''"
    by (simp add: path_resolve_def isAbsolute_def)
  have r2: "path_resolve (process_cwd env1) ''/tmp/app10/secret.txt'' = ''/tmp/app10/secret.txt''"
    by (simp add: path_resolve_def isAbsolute_def)
  have g: "guard_passes (process_cwd env1) ''/tmp/app1'' ''../app10/secret.txt''"
    by (simp add: guard_passes_def j r1 r2 indexOf_def)
  have l: "\<not> lies_within ''/tmp/app1'' ''/tmp/app10/secret.txt''"
    by (simp add: lies_within_def path_components_def)
  have f: "fs_exists env1 ''/tmp/app10/secret.txt'' \<and>
           \<not> fs_isDirectory env1 ''/tmp/app10/secret.txt'' \<and>
           fs_readFile env1 ''/tmp/app10/secret.txt'' = Inr ''secret''"
    by (simp add: env1_def)
  have "readProjectFile env1 kit1 ''id1'' ''../app10/secret.txt'' =
     (Resolved ''secret'',
      [Exists ''/tmp/app10/secret.txt'', Lstat ''/tmp/app10/secret.txt'',
       ReadFile ''/tmp/app10/secret.txt''])"
    using a g f by (simp add: readProjectFile_def j Let_def)
  then show ?thesis using a j r1 r2 l by simp
qed

section \<open>Reconciliation: proofs\<close>




























lemma env1_ids:
  "getLocalProjectId env1 ''/tmp/app1'' = Inr ''id1''"
  "getLocalProjectId env1 ''/tmp/app2'' = Inr ''id2''"
  "getLocalProjectId env1 ''/tmp/app3'' = Inr ''id3''"
  "getLocalProjectId env1 ''/tmp/bare'' = Inr ''id4''"
  "getLocalProjectId env1 ''/tmp/nowhere'' = Inl (External ''ENOENT'')"
  by (simp_all add: env1_def)

lemma env1_www:
  "fs_exists env1 ''/tmp/app2/www''"
  "fs_exists env1 ''/tmp/app3/www''"
  "\<not> fs_exists env1 ''/tmp/bare/www''"
  by (simp_all add: env1_def)

lemma env1_watch:
  "run_throws env1 w ''/tmp/app2/www'' = None"
  "run_throws env1 w ''/tmp/app3/www'' = Some (External ''EACCES'')"
  "stop_throws env1 w = None"
  by (simp_all add: env1_def)


lemma kit1_flag_projects: "projects kit1_flag = [(''id1'', app1)]" "p_isWatching kit1_flag"
  by (simp_all add: kit1_flag_def kit1_def new_localkit_def)






lemma add_app3_kit1_flag:
  "fst (addProject env1 kit1_flag ''/tmp/app3'') = Rejected (External ''EACCES'')"
  by (simp add: addProject_def env1_ids path_join_app3 env1_www kit1_flag_projects
      hasOwnProperty_def isWatching_def Let_def fw_run_def env1_watch)















end
